theory Spec2Isabelle
  imports Main
begin

section \<open>The Node client: values of the JavaScript run time\<close>

text \<open>
  An exception value, as far as the client looks at it: \<open>error.name\<close> and
  \<open>error.message\<close>.
\<close>

datatype js_error = Error (name: string) (message: string)

text \<open>
  The object a request settles with.  \<open>singleRequest\<close> builds
  \<open>{status: 'success', id, httpStatus, duration}\<close> or
  \<open>{status: 'failed', id, reason, duration}\<close>; the two shapes are the two
  constructors.
\<close>

datatype outcome =
    Success (req_id: int) (httpStatus: nat) (duration: int)
  | Failed (req_id: int) (reason: string) (duration: int)

text \<open>
  The signal made by \<open>AbortSignal.timeout(ms)\<close>: it fires after \<open>delay\<close>
  milliseconds, and an operation it aborts rejects with \<open>abort_reason\<close>.  The DOM
  standard fixes the reason of a timeout signal: a \<open>DOMException\<close> named
  \<open>TimeoutError\<close>; the message is the one Node gives it.
\<close>

record abort_signal =
  delay :: int
  abort_reason :: js_error

text \<open>
  Node checks the argument of \<open>AbortSignal.timeout\<close> as an unsigned 32-bit integer:
  outside 0..4294967295 the call throws a \<open>RangeError\<close> (its message, which quotes the
  value, is shortened here).
\<close>

definition delay_ok :: "int \<Rightarrow> bool" where
  "delay_ok ms = (0 \<le> ms \<and> ms \<le> 4294967295)"

definition AbortSignal_timeout :: "int \<Rightarrow> js_error + abort_signal" where
  "AbortSignal_timeout ms =
     (if delay_ok ms then
        Inr \<lparr>delay = ms,
             abort_reason = Error ''TimeoutError'' ''The operation was aborted due to timeout''\<rparr>
      else Inl (Error ''RangeError'' ''The value of delay is out of range.''))"

text \<open>
  \<open>AbortController\<close> has the members \<open>signal\<close> and \<open>abort\<close> and no static
  \<open>timeout\<close>: the expression \<open>AbortController.timeout(ms)\<close> of the second
  variant of the client calls \<open>undefined\<close>, which throws a \<open>TypeError\<close>.
\<close>

definition AbortController_timeout :: "int \<Rightarrow> js_error + abort_signal" where
  "AbortController_timeout ms =
     Inl (Error ''TypeError'' ''AbortController.timeout is not a function'')"

text \<open>\<open>new http.Agent({ keepAlive })\<close>: a connection pool of its own.\<close>

record http_Agent =
  agent_keepAlive :: bool

text \<open>
  The object literal \<open>fetchOptions\<close> of \<open>request.js\<close> (its key \<open>method\<close> is
  \<open>http_method\<close> here).
\<close>

record fetchOptions =
  signal :: abort_signal
  http_method :: string
  agent :: http_Agent
  headers :: "(string \<times> string) list"

text \<open>The object literal \<open>fetchOptions\<close> of the second variant.\<close>

record fetchOptions2 =
  signal2 :: abort_signal
  keepalive2 :: bool

text \<open>
  What the network does with one request is not decided by the client; it is an input
  of the model.  \<open>fetch\<close> resolves with a response carrying a status
  (\<open>Responds\<close>), rejects with a transport error (\<open>FetchFails\<close>), or is aborted
  by its signal while it is pending (\<open>FetchAborted\<close>).  Reading the body of a
  response ends in one of the same three ways.
\<close>

datatype body_event = BodyRead | BodyFails js_error | BodyAborted

datatype fetch_event = Responds nat body_event | FetchFails js_error | FetchAborted

record response =
  status :: nat
  body :: body_event
  aborts_with :: js_error

text \<open>\<open>response.ok\<close>: the status is in the range 200 to 299.\<close>

definition ok :: "response \<Rightarrow> bool" where
  "ok r = (200 \<le> status r \<and> status r \<le> 299)"

text \<open>
  \<open>fetch(input, init)\<close> converts \<open>init\<close> to the dictionary \<open>RequestInit\<close> of the
  Fetch standard, which keeps the members the standard defines: of the keys the client
  writes these are \<open>signal\<close>, \<open>method\<close>, \<open>headers\<close> and \<open>keepalive\<close> (whether the
  request may outlive the page; false when absent).  \<open>agent\<close> is not a member, so the
  conversion drops it.
\<close>

record RequestInit =
  init_signal :: abort_signal
  init_method :: string
  init_headers :: "(string \<times> string) list"
  init_keepalive :: bool

definition RequestInit_of :: "fetchOptions \<Rightarrow> RequestInit" where
  "RequestInit_of fo =
     \<lparr>init_signal = signal fo, init_method = http_method fo,
      init_headers = headers fo, init_keepalive = False\<rparr>"

definition RequestInit_of2 :: "fetchOptions2 \<Rightarrow> RequestInit" where
  "RequestInit_of2 fo =
     \<lparr>init_signal = signal2 fo, init_method = ''GET'',
      init_headers = [], init_keepalive = keepalive2 fo\<rparr>"

text \<open>
  \<open>fetch\<close> rejects an aborted call with the abort reason of the signal it was given,
  and so does the body of its response.
\<close>

definition fetch :: "RequestInit \<Rightarrow> fetch_event \<Rightarrow> js_error + response" where
  "fetch init ev =
     (case ev of
        Responds st b \<Rightarrow>
          Inr \<lparr>status = st, body = b, aborts_with = abort_reason (init_signal init)\<rparr>
      | FetchFails e \<Rightarrow> Inl e
      | FetchAborted \<Rightarrow> Inl (abort_reason (init_signal init)))"

definition text_of :: "response \<Rightarrow> js_error + unit" where
  "text_of r =
     (case body r of
        BodyRead \<Rightarrow> Inr ()
      | BodyFails e \<Rightarrow> Inl e
      | BodyAborted \<Rightarrow> Inl (aborts_with r))"

text \<open>
  Everything else one call of \<open>singleRequest\<close> takes from outside: the value of
  \<open>randomUUID()\<close>, whether \<open>new Request(url)\<close> throws, the network, and the two
  readings of \<open>hrtime.bigint()\<close> (nanoseconds).
\<close>

record request_env =
  uuid :: string
  new_Request :: "js_error option"
  net :: fetch_event
  startTime :: int
  endTime :: int

text \<open>Division of BigInts rounds towards zero.\<close>

definition bigint_div :: "int \<Rightarrow> int \<Rightarrow> int" where
  "bigint_div a b = sgn a * sgn b * (\<bar>a\<bar> div \<bar>b\<bar>)"

text \<open>A number in a template literal: its decimal digits.\<close>

fun show_nat :: "nat \<Rightarrow> string" where
  "show_nat n =
     (if n < 10 then [''0123456789'' ! n]
      else show_nat (n div 10) @ [''0123456789'' ! (n mod 10)])"

declare show_nat.simps [simp del]

text \<open>The lines written with \<open>console.log\<close>, by their template.\<close>

datatype log_line =
    LogRequest int string int bool string
  | LogResponse int nat int
  | LogError string
  | LogTotal int

section \<open>The Node client: \<open>singleRequest\<close>\<close>

text \<open>
  The object \<open>config\<close> that \<open>getArgs\<close> returns; \<open>singleRequest\<close> takes
  \<open>timeout\<close> and \<open>keepAlive\<close> from it.
\<close>

record config =
  url :: string
  concurrency :: int
  timeout :: int
  keepAlive :: bool

text \<open>
  The body of the \<open>try\<close> block up to the second \<open>await\<close>: \<open>Inl\<close> is the
  exception that reaches the \<open>catch\<close>.
\<close>

definition try_fetch :: "fetchOptions \<Rightarrow> request_env \<Rightarrow> js_error + response" where
  "try_fetch fo env =
     (case new_Request env of
        Some e \<Rightarrow> Inl e
      | None \<Rightarrow>
          (case fetch (RequestInit_of fo) (net env) of
             Inl e \<Rightarrow> Inl e
           | Inr r \<Rightarrow> (case text_of r of Inl e \<Rightarrow> Inl e | Inr _ \<Rightarrow> Inr r)))"

text \<open>
  The object literal \<open>fetchOptions\<close>, built before the \<open>try\<close>: evaluating it calls
  \<open>AbortSignal.timeout(timeout)\<close>, so it may throw.
\<close>

definition mk_fetchOptions :: "config \<Rightarrow> string \<Rightarrow> js_error + fetchOptions" where
  "mk_fetchOptions opts u =
     (case AbortSignal_timeout (timeout opts) of
        Inl e \<Rightarrow> Inl e
      | Inr sig \<Rightarrow>
          Inr \<lparr>signal = sig,
               http_method = ''GET'',
               agent = \<lparr>agent_keepAlive = keepAlive opts\<rparr>,
               headers = [(''x-mgc-test-id'', u)]\<rparr>)"

text \<open>
  One call of \<open>singleRequest\<close>, seen from outside: the lines it logs, the options
  of the \<open>fetch\<close> call it makes (\<open>None\<close> when it does not reach the call), and
  how its promise settles: \<open>Inr\<close> fulfilled with an outcome, \<open>Inl\<close> rejected with
  an exception that left the function.
\<close>

record promise =
  logged :: "log_line list"
  fetched :: "fetchOptions option"
  settles :: "js_error + outcome"

text \<open>
  \<open>singleRequest\<close> of \<open>request.js\<close>.  An exception of the object literal leaves
  the function before its first line is logged: the promise is rejected and no
  \<open>fetch\<close> is made.  Everything after it is inside the \<open>try\<close>.
\<close>

definition singleRequest :: "int \<Rightarrow> string \<Rightarrow> config \<Rightarrow> request_env \<Rightarrow> promise" where
  "singleRequest i u opts env =
     (case mk_fetchOptions opts (uuid env) of
        Inl e \<Rightarrow> \<lparr>logged = [], fetched = None, settles = Inl e\<rparr>
      | Inr fo \<Rightarrow>
          (let l1 = LogRequest i u (timeout opts) (keepAlive opts) (uuid env);
               d = bigint_div (endTime env - startTime env) 1000000;
               call = (case new_Request env of Some e \<Rightarrow> None | None \<Rightarrow> Some fo)
           in case try_fetch fo env of
                Inr r \<Rightarrow>
                  \<lparr>logged = [l1, LogResponse i (status r) d],
                   fetched = call,
                   settles =
                     (if \<not> ok r then Inr (Failed i (''HTTP '' @ show_nat (status r)) d)
                      else Inr (Success i (status r) d))\<rparr>
              | Inl e \<Rightarrow>
                  \<lparr>logged = [l1, LogError (message e)],
                   fetched = call,
                   settles =
                     Inr (Failed i (if name e = ''AbortError'' then ''Timeout'' else message e)
                            d)\<rparr>))"

text \<open>
  \<open>singleRequest\<close> of the second variant (the file without the request header).  The
  signal is made before the \<open>try\<close>, so an exception there leaves the function.
\<close>

definition try_fetch2 :: "fetchOptions2 \<Rightarrow> request_env \<Rightarrow> js_error + response" where
  "try_fetch2 fo env =
     (case fetch (RequestInit_of2 fo) (net env) of
        Inl e \<Rightarrow> Inl e
      | Inr r \<Rightarrow> (case text_of r of Inl e \<Rightarrow> Inl e | Inr _ \<Rightarrow> Inr r))"

definition singleRequest2 ::
  "int \<Rightarrow> string \<Rightarrow> config \<Rightarrow> request_env \<Rightarrow> js_error + outcome" where
  "singleRequest2 i u opts env =
     (case AbortController_timeout (timeout opts) of
        Inl e \<Rightarrow> Inl e
      | Inr sig \<Rightarrow>
          (let fo = \<lparr>signal2 = sig, keepalive2 = keepAlive opts\<rparr>;
               d = bigint_div (endTime env - startTime env) 1000000
           in case try_fetch2 fo env of
                Inr r \<Rightarrow>
                  if \<not> ok r then Inr (Failed i (''HTTP '' @ show_nat (status r)) d)
                  else Inr (Success i (status r) d)
              | Inl e \<Rightarrow>
                  Inr (Failed i (if name e = ''AbortError'' then ''Timeout'' else message e) d)))"

section \<open>The Node client: \<open>getArgs\<close>\<close>

text \<open>
  A JavaScript number as far as \<open>getArgs\<close> needs it: \<open>NaN\<close> or an integer.
  \<open>parseInt(s, 10)\<close> skips leading white space, reads a sign, then the longest run
  of decimal digits, and is \<open>NaN\<close> when that run is empty.  The model reads ASCII
  white space and keeps the integer exact (a double rounds it beyond \<open>2^53\<close>, which
  changes no comparison with 1).
\<close>

datatype number = NaN | Num int

definition is_space :: "char \<Rightarrow> bool" where
  "is_space c = (c \<in> set [CHR 0x09, CHR 0x0A, CHR 0x0B, CHR 0x0C, CHR 0x0D, CHR 0x20])"

definition is_digit :: "char \<Rightarrow> bool" where
  "is_digit c = (48 \<le> (of_char c :: nat) \<and> (of_char c :: nat) \<le> 57)"

definition digits_value :: "string \<Rightarrow> int" where
  "digits_value ds = foldl (\<lambda>a c. 10 * a + (int (of_char c) - 48)) 0 ds"

definition parseInt :: "string \<Rightarrow> number" where
  "parseInt s =
     (let s1 = dropWhile is_space s;
          sgn1 = (case s1 of c # _ \<Rightarrow> if c = CHR ''-'' then - 1 else 1 | [] \<Rightarrow> (1::int));
          s2 = (case s1 of c # r \<Rightarrow> if c = CHR ''-'' \<or> c = CHR ''+'' then r else s1 | [] \<Rightarrow> s1);
          z = takeWhile is_digit s2
      in if z = [] then NaN else Num (sgn1 * digits_value z))"

definition isNaN :: "number \<Rightarrow> bool" where
  "isNaN x = (case x of NaN \<Rightarrow> True | Num _ \<Rightarrow> False)"

text \<open>\<open>x < k\<close> on numbers: a comparison with \<open>NaN\<close> is false.\<close>

definition num_less :: "number \<Rightarrow> int \<Rightarrow> bool" where
  "num_less x k = (case x of NaN \<Rightarrow> False | Num v \<Rightarrow> v < k)"

definition num_val :: "number \<Rightarrow> int" where
  "num_val x = (case x of NaN \<Rightarrow> 0 | Num v \<Rightarrow> v)"

text \<open>
  The \<open>values\<close> object of \<open>parseArgs\<close>: \<open>url\<close> has no default, so it may be
  \<open>undefined\<close>; the other three have one.  \<open>parseArgs\<close> itself may throw (an
  unknown option, a positional argument).
\<close>

record arg_values =
  v_url :: "string option"
  v_concurrency :: string
  v_timeout :: string
  v_keepalive :: bool

text \<open>\<open>process.exit(code)\<close>, with the message written to the error stream before it.\<close>

datatype exit = Exit int string

text \<open>
  \<open>getArgs\<close>.  \<open>URL_ok\<close> says for which strings \<open>new URL(s)\<close> returns instead of
  throwing.  Every \<open>throw\<close> of the \<open>try\<close> block lands in the one \<open>catch\<close>, which
  prints the message and exits with code 1.
\<close>

definition getArgs :: "(string \<Rightarrow> bool) \<Rightarrow> js_error + arg_values \<Rightarrow> exit + config" where
  "getArgs URL_ok parsed =
     (case parsed of
        Inl err \<Rightarrow> Inl (Exit 1 (message err))
      | Inr vals \<Rightarrow>
          (if v_url vals = None \<or> v_url vals = Some [] then
             Inl (Exit 1 ''--url is a required argument.'')
           else if \<not> URL_ok (the (v_url vals)) then
             Inl (Exit 1 (''Invalid URL provided: '' @ the (v_url vals)))
           else
             (let c = parseInt (v_concurrency vals);
                  t = parseInt (v_timeout vals)
              in if isNaN c \<or> num_less c 1 then
                   Inl (Exit 1 ''--concurrency must be a number greater than 0.'')
                 else if isNaN t \<or> num_less t 1 then
                   Inl (Exit 1 ''--timeout must be a number greater than 0.'')
                 else
                   Inr \<lparr>url = the (v_url vals), concurrency = num_val c,
                        timeout = num_val t, keepAlive = v_keepalive vals\<rparr>)))"

section \<open>The Node client: \<open>Promise.allSettled\<close> and \<open>main\<close>\<close>

text \<open>An element of the array \<open>Promise.allSettled\<close> resolves with.\<close>

datatype 'a settled = fulfilled 'a | rejected js_error

definition settled_of :: "js_error + 'a \<Rightarrow> 'a settled" where
  "settled_of r = (case r of Inl e \<Rightarrow> rejected e | Inr v \<Rightarrow> fulfilled v)"

text \<open>
  \<open>Promise.allSettled\<close> as the language defines it: an array \<open>values\<close> (here \<open>values_array\<close>) with one
  slot for every promise of the input, in the order of the input, and a count of the
  promises that have not settled.  When promise \<open>i\<close> settles, its slot is written (once:
  the flag \<open>alreadyCalled\<close> is the slot being filled) and the count goes down; the
  result promise resolves with \<open>values\<close> when the count reaches zero, and not before.
\<close>

record 'a allSettled_state =
  values_array :: "'a settled option list"
  remainingElementsCount :: nat

definition allSettled_start :: "nat \<Rightarrow> 'a allSettled_state" where
  "allSettled_start n = \<lparr>values_array = replicate n None, remainingElementsCount = n\<rparr>"

definition settle_element :: "nat \<Rightarrow> 'a settled \<Rightarrow> 'a allSettled_state \<Rightarrow> 'a allSettled_state" where
  "settle_element i r st =
     (if i < length (values_array st) \<and> values_array st ! i = None then
        \<lparr>values_array = (values_array st)[i := Some r],
         remainingElementsCount = remainingElementsCount st - 1\<rparr>
      else st)"

definition resolved :: "'a allSettled_state \<Rightarrow> 'a settled list option" where
  "resolved st =
     (if remainingElementsCount st = 0 then Some (map the (values_array st)) else None)"

text \<open>
  \<open>await Promise.allSettled(requests)\<close>, for promises that settle in the order
  \<open>order\<close> (indices into \<open>requests\<close>; the event loop decides it, not the client).
  \<open>None\<close>: the \<open>await\<close> never resumes.
\<close>

fun settle_all :: "(js_error + 'a) list \<Rightarrow> nat list \<Rightarrow> 'a allSettled_state \<Rightarrow> 'a allSettled_state" where
  "settle_all requests [] st = st"
| "settle_all requests (i # order) st =
     settle_all requests order
       (if i < length requests then settle_element i (settled_of (requests ! i)) st else st)"

definition await_allSettled :: "(js_error + 'a) list \<Rightarrow> nat list \<Rightarrow> 'a settled list option" where
  "await_allSettled requests order =
     resolved (settle_all requests order (allSettled_start (length requests)))"

text \<open>
  The \<open>for\<close> loop of \<open>main\<close>: \<open>requests.push(singleRequest(i + 1, config.url,
  config))\<close> while \<open>i < config.concurrency\<close>.  \<open>envs i\<close> is what call \<open>i\<close> meets.
\<close>

function launch :: "config \<Rightarrow> (int \<Rightarrow> request_env) \<Rightarrow> int \<Rightarrow> promise list \<Rightarrow> promise list" where
  "launch cfg envs i requests =
     (if i < concurrency cfg then
        launch cfg envs (i + 1) (requests @ [singleRequest (i + 1) (url cfg) cfg (envs i)])
      else requests)"
  by pat_completeness auto
termination
  by (relation "measure (\<lambda>(cfg, envs, i, requests). nat (concurrency cfg - i))") auto

declare launch.simps [simp del]

text \<open>What one turn of the \<open>while\<close> loop meets.\<close>

record batch_env =
  envs :: "int \<Rightarrow> request_env"
  order :: "nat list"
  totalStartTime :: int
  totalEndTime :: int

text \<open>
  One turn of the \<open>while (true)\<close> loop, seen from outside: the promises it made, the
  array the \<open>await\<close> resumed with, and the line it logged after it.
\<close>

record batch_report =
  requests_of :: "promise list"
  outcomes :: "outcome settled list"
  total :: log_line

definition batch :: "config \<Rightarrow> batch_env \<Rightarrow> batch_report option" where
  "batch cfg b =
     (let requests = launch cfg (envs b) 0 []
      in case await_allSettled (map settles requests) (order b) of
           None \<Rightarrow> None
         | Some res \<Rightarrow>
             Some \<lparr>requests_of = requests, outcomes = res,
                   total = LogTotal (bigint_div (totalEndTime b - totalStartTime b) 1000000)\<rparr>)"

text \<open>
  The \<open>while (true)\<close> loop has no exit.  It is observed through what it has done after
  the turns whose environments are given: it is at the head of the loop again
  (\<open>AtLoopHead\<close>), or it waits in an \<open>await\<close> that never resumes (\<open>Awaiting\<close>).
\<close>

datatype loop_state = AtLoopHead | Awaiting

fun main_loop :: "config \<Rightarrow> batch_env list \<Rightarrow> batch_report list \<Rightarrow> loop_state \<times> batch_report list" where
  "main_loop cfg [] done = (AtLoopHead, done)"
| "main_loop cfg (b # bs) done =
     (case batch cfg b of
        None \<Rightarrow> (Awaiting, done)
      | Some r \<Rightarrow> main_loop cfg bs (done @ [r]))"

definition main ::
  "(string \<Rightarrow> bool) \<Rightarrow> js_error + arg_values \<Rightarrow> batch_env list \<Rightarrow>
     exit + loop_state \<times> batch_report list" where
  "main URL_ok parsed bs =
     (case getArgs URL_ok parsed of
        Inl e \<Rightarrow> Inl e
      | Inr cfg \<Rightarrow> Inr (main_loop cfg bs []))"

section \<open>The Go client: flags and the HTTP client\<close>

text \<open>
  The four variables behind the pointers that \<open>flag.String\<close>, \<open>flag.Bool\<close> and
  \<open>flag.Int\<close> return.  Defining a flag stores its default; \<open>flag.Parse()\<close> stores
  the value of every flag the command line gives.
\<close>

record flags =
  flag_url :: string
  flag_keepalive :: bool
  flag_n :: int
  flag_ms :: int

definition flag_defaults :: flags where
  "flag_defaults =
     \<lparr>flag_url = ''http://localhost:8080'', flag_keepalive = False, flag_n = 10, flag_ms = 2000\<rparr>"

record cmdline =
  arg_url :: "string option"
  arg_keepalive :: "bool option"
  arg_n :: "int option"
  arg_ms :: "int option"

definition flag_Parse :: "cmdline \<Rightarrow> flags \<Rightarrow> flags" where
  "flag_Parse args vars =
     \<lparr>flag_url = (case arg_url args of None \<Rightarrow> flag_url vars | Some v \<Rightarrow> v),
      flag_keepalive = (case arg_keepalive args of None \<Rightarrow> flag_keepalive vars | Some v \<Rightarrow> v),
      flag_n = (case arg_n args of None \<Rightarrow> flag_n vars | Some v \<Rightarrow> v),
      flag_ms = (case arg_ms args of None \<Rightarrow> flag_ms vars | Some v \<Rightarrow> v)\<rparr>"

text \<open>
  \<open>int\<close> and \<open>time.Duration\<close> are 64-bit signed integers; \<open>wrap64\<close> is the value
  an arithmetic result has in that type.  A duration counts nanoseconds.
\<close>

definition wrap64 :: "int \<Rightarrow> int" where
  "wrap64 x = (x + 2 ^ 63) mod 2 ^ 64 - 2 ^ 63"

definition Millisecond :: int where
  "Millisecond = 1000000"

definition Second :: int where
  "Second = 1000000000"

record Transport =
  MaxIdleConns :: int
  MaxConnsPerHost :: int
  IdleConnTimeout :: int
  DisableKeepAlives :: bool

record Client =
  transport :: Transport
  Timeout :: int

text \<open>
  The head of \<open>main\<close> up to the loop, statement by statement: the four flags are
  defined, \<open>duration\<close> is computed from \<open>*ms\<close>, then \<open>flag.Parse()\<close> runs, then the
  client is built from \<open>*numRequests\<close>, \<open>*keepalive\<close> and \<open>duration\<close>.
\<close>

definition main_setup :: "cmdline \<Rightarrow> flags \<times> Client" where
  "main_setup args =
     (let vars0 = flag_defaults;
          duration = wrap64 (flag_ms vars0 * Millisecond);
          vars = flag_Parse args vars0;
          client =
            \<lparr>transport =
               \<lparr>MaxIdleConns = flag_n vars,
                MaxConnsPerHost = flag_n vars,
                IdleConnTimeout = wrap64 (30 * Second),
                DisableKeepAlives = (\<not> flag_keepalive vars)\<rparr>,
             Timeout = duration\<rparr>
      in (vars, client))"

section \<open>The Go client: \<open>makeRequest\<close>\<close>

text \<open>
  What one request meets: the string of \<open>uuid.New()\<close>, and what \<open>client.Do\<close> and
  \<open>io.Copy\<close> return (an error text, or the status line of the response).
\<close>

datatype do_result =
    DoError string
  | DoResponse string "string option"

record go_env =
  new_uuid :: string
  do_returns :: do_result

record http_Request =
  r_method :: string
  r_url :: string
  r_header :: "(string \<times> string) list"

text \<open>The lines the Go client prints, by their format string.\<close>

datatype go_line =
    StartingParallel int string
  | StartingLoop
  | BatchStarting int
  | WaitingForAll
  | BatchCompleted int int
  | ReqStarting int
  | ReqError int string
  | ReqErrorBody int string
  | ReqFinished int string

text \<open>
  One run of \<open>makeRequest\<close>: its lines, the request it handed to \<open>client.Do\<close> with
  the client it used, and whether it panicked.  \<open>http.NewRequest\<close> returns a nil
  request for a URL that does not parse (\<open>NewRequest_ok\<close> says which do); the error is
  dropped, and \<open>req.Header.Add\<close> on the nil request panics.  \<open>wg.Done()\<close> is
  deferred, so it runs on every way out.
\<close>

record made =
  lines :: "go_line list"
  sent :: "(Client \<times> http_Request) option"
  panicked :: bool

definition makeRequest :: "(string \<Rightarrow> bool) \<Rightarrow> Client \<Rightarrow> string \<Rightarrow> int \<Rightarrow> go_env \<Rightarrow> made" where
  "makeRequest NewRequest_ok client u i env =
     (if \<not> NewRequest_ok u then
        \<lparr>lines = [ReqStarting i], sent = None, panicked = True\<rparr>
      else
        (let req = \<lparr>r_method = ''GET'', r_url = u,
                    r_header = [(''x-mgc-test-id'', new_uuid env)]\<rparr>
         in case do_returns env of
              DoError err \<Rightarrow>
                \<lparr>lines = [ReqStarting i, ReqError i err],
                 sent = Some (client, req), panicked = False\<rparr>
            | DoResponse st (Some err) \<Rightarrow>
                \<lparr>lines = [ReqStarting i, ReqErrorBody i err],
                 sent = Some (client, req), panicked = False\<rparr>
            | DoResponse st None \<Rightarrow>
                \<lparr>lines = [ReqStarting i, ReqFinished i st],
                 sent = Some (client, req), panicked = False\<rparr>))"

section \<open>The Go client: the loop of \<open>main\<close> and its goroutines\<close>

text \<open>
  The main goroutine is in the \<open>for\<close> loop that launches (\<open>Launching i\<close>, with the
  loop variable), or blocked in \<open>wg.Wait()\<close> (\<open>Waiting\<close>); \<open>Crashed\<close> is the process
  after a panic.
\<close>

datatype pc = Launching int | Waiting | Crashed

text \<open>
  The state of the process: the counter \<open>batchNumber\<close>, where the main goroutine is,
  the counter of the \<open>WaitGroup\<close> of the current turn, the goroutines that have been
  launched and have not returned (each with the batch that launched it and its
  \<open>id\<close>), and the lines printed.
\<close>

record go_state =
  batchNumber :: int
  at :: pc
  wg :: int
  inflight :: "(int \<times> int) list"
  printed :: "go_line list"

text \<open>
  The scheduler picks who runs next: the main goroutine, or a launched goroutine, which
  then runs \<open>makeRequest\<close> against what the network gives it.  A goroutine is one step:
  its lines are printed together when it returns.  The readings of the clock
  (\<open>time.Now\<close>, \<open>time.Since\<close>) only feed a printed duration and are left out.
\<close>

datatype sched = MainStep | Goroutine int int go_env

definition init_state :: "flags \<Rightarrow> go_state" where
  "init_state vars =
     \<lparr>batchNumber = 1, at = Launching 0, wg = 0, inflight = [],
      printed = [StartingParallel (flag_n vars) (flag_url vars), StartingLoop, BatchStarting 1]\<rparr>"

text \<open>
  One step.  \<open>None\<close>: the chosen goroutine cannot run (the main goroutine blocked in
  \<open>Wait\<close> with a counter that is not zero, a goroutine that is not in flight, a
  crashed process).  When \<open>Wait\<close> returns, the turn ends (\<open>batchNumber++\<close>) and the
  next one begins with a new \<open>WaitGroup\<close>.  A goroutine that returns calls \<open>Done\<close>
  on the \<open>WaitGroup\<close> of the turn that launched it.
\<close>

definition step :: "(string \<Rightarrow> bool) \<Rightarrow> flags \<Rightarrow> Client \<Rightarrow> sched \<Rightarrow> go_state \<Rightarrow> go_state option" where
  "step NewRequest_ok vars client ev s =
     (case ev of
        MainStep \<Rightarrow>
          (case at s of
             Launching i \<Rightarrow>
               if i < flag_n vars then
                 Some (s\<lparr>wg := wg s + 1,
                         inflight := inflight s @ [(batchNumber s, i + 1)],
                         at := Launching (i + 1)\<rparr>)
               else
                 Some (s\<lparr>at := Waiting, printed := printed s @ [WaitingForAll]\<rparr>)
           | Waiting \<Rightarrow>
               if wg s = 0 then
                 Some (s\<lparr>batchNumber := wrap64 (batchNumber s + 1),
                         at := Launching 0,
                         wg := 0,
                         printed := printed s @
                           [BatchCompleted (batchNumber s) (flag_n vars),
                            BatchStarting (wrap64 (batchNumber s + 1))]\<rparr>)
               else None
           | Crashed \<Rightarrow> None)
      | Goroutine b i env \<Rightarrow>
          (if at s = Crashed \<or> (b, i) \<notin> set (inflight s) then None
           else
             (let m = makeRequest NewRequest_ok client (flag_url vars) i env
              in if panicked m then
                   Some (s\<lparr>at := Crashed, printed := printed s @ lines m\<rparr>)
                 else
                   Some (s\<lparr>wg := (if b = batchNumber s then wg s - 1 else wg s),
                           inflight := remove1 (b, i) (inflight s),
                           printed := printed s @ lines m\<rparr>))))"

fun run :: "(string \<Rightarrow> bool) \<Rightarrow> flags \<Rightarrow> Client \<Rightarrow> sched list \<Rightarrow> go_state \<Rightarrow> go_state option" where
  "run NewRequest_ok vars client [] s = Some s"
| "run NewRequest_ok vars client (ev # evs) s =
     (case step NewRequest_ok vars client ev s of
        None \<Rightarrow> None
      | Some s' \<Rightarrow> run NewRequest_ok vars client evs s')"

text \<open>The whole program under a schedule: \<open>main\<close> from its first statement.\<close>

definition go_main :: "(string \<Rightarrow> bool) \<Rightarrow> cmdline \<Rightarrow> sched list \<Rightarrow> go_state option" where
  "go_main NewRequest_ok args evs =
     (let (vars, client) = main_setup args
      in run NewRequest_ok vars client evs (init_state vars))"





text \<open>
  What holds of the process between any two steps: every goroutine in flight was
  launched by the current turn, the counter of the \<open>WaitGroup\<close> is the number of
  goroutines in flight, no goroutine is listed twice, and while the \<open>for\<close> loop is at
  \<open>i\<close> the goroutines in flight have an \<open>id\<close> from 1 to \<open>i\<close>.
\<close>

definition go_inv :: "go_state \<Rightarrow> bool" where
  "go_inv s =
     ((\<forall>(b, k) \<in> set (inflight s). b = batchNumber s) \<and>
      wg s = int (length (inflight s)) \<and>
      distinct (inflight s) \<and>
      (case at s of
         Launching i \<Rightarrow> 0 \<le> i \<and> (\<forall>(b, k) \<in> set (inflight s). 1 \<le> k \<and> k \<le> i)
       | Waiting \<Rightarrow> True
       | Crashed \<Rightarrow> True))"


section \<open>Classification of one request\<close>

lemma mk_fetchOptions_ok:
  "delay_ok (timeout cfg) \<Longrightarrow>
   mk_fetchOptions cfg u =
     Inr \<lparr>signal = \<lparr>delay = timeout cfg,
                     abort_reason = Error ''TimeoutError'' ''The operation was aborted due to timeout''\<rparr>,
          http_method = ''GET'',
          agent = \<lparr>agent_keepAlive = keepAlive cfg\<rparr>,
          headers = [(''x-mgc-test-id'', u)]\<rparr>"
  by (simp add: mk_fetchOptions_def AbortSignal_timeout_def)

lemma mk_fetchOptions_out_of_range:
  "\<not> delay_ok (timeout cfg) \<Longrightarrow>
   mk_fetchOptions cfg u = Inl (Error ''RangeError'' ''The value of delay is out of range.'')"
  by (simp add: mk_fetchOptions_def AbortSignal_timeout_def)

lemma singleRequest_out_of_range:
  "\<not> delay_ok (timeout cfg) \<Longrightarrow>
   singleRequest i u cfg env =
     \<lparr>logged = [], fetched = None,
      settles = Inl (Error ''RangeError'' ''The value of delay is out of range.'')\<rparr>"
  by (simp add: singleRequest_def mk_fetchOptions_out_of_range)

lemma try_fetch_responds:
  "new_Request env = None \<Longrightarrow> net env = Responds st BodyRead \<Longrightarrow>
   try_fetch fo env = Inr \<lparr>status = st, body = BodyRead, aborts_with = abort_reason (signal fo)\<rparr>"
  by (simp add: try_fetch_def fetch_def text_of_def RequestInit_of_def)

lemma singleRequest_fulfils:
  "delay_ok (timeout cfg) \<Longrightarrow>
   \<exists>out. settles (singleRequest i u cfg env) = Inr out \<and> req_id out = i"
  by (auto simp: singleRequest_def mk_fetchOptions_ok Let_def split: sum.splits)

text \<open>
  C3, as amended.  In \<open>request.js\<close>, with a timeout that \<open>AbortSignal.timeout\<close>
  accepts, a request whose exchange succeeds and whose body is read settles as
  \<open>success\<close> with \<open>httpStatus\<close> the status when the status is in 200..299, and as
  \<open>failed\<close> with the reason \<open>HTTP\<close>, a space and the decimal status otherwise.
\<close>

theorem singleRequest_classifies:
  "delay_ok (timeout cfg) \<Longrightarrow> new_Request env = None \<Longrightarrow> net env = Responds st BodyRead \<Longrightarrow>
   settles (singleRequest i u cfg env) =
     Inr (if 200 \<le> st \<and> st \<le> 299
          then Success i st (bigint_div (endTime env - startTime env) 1000000)
          else Failed i (''HTTP '' @ show_nat st)
                 (bigint_div (endTime env - startTime env) 1000000))"
  by (simp add: singleRequest_def mk_fetchOptions_ok try_fetch_responds ok_def Let_def)

theorem singleRequest_classifies_witness:
  "delay_ok 5000
   \<and> settles (singleRequest 7 ''http://localhost:8080''
      \<lparr>url = ''http://localhost:8080'', concurrency = 10, timeout = 5000, keepAlive = False\<rparr>
      \<lparr>uuid = ''u'', new_Request = None, net = Responds 500 BodyRead,
       startTime = 1000000, endTime = 43000000\<rparr>) = Inr (Failed 7 ''HTTP 500'' 42)
   \<and> settles (singleRequest 7 ''http://localhost:8080''
      \<lparr>url = ''http://localhost:8080'', concurrency = 10, timeout = 5000, keepAlive = False\<rparr>
      \<lparr>uuid = ''u'', new_Request = None, net = Responds 200 BodyRead,
       startTime = 1000000, endTime = 43000000\<rparr>) = Inr (Success 7 200 42)"
proof -
  let ?cfg = "\<lparr>url = ''http://localhost:8080'', concurrency = 10, timeout = 5000, keepAlive = False\<rparr>"
  let ?e500 = "\<lparr>uuid = ''u'', new_Request = None, net = Responds 500 BodyRead,
       startTime = 1000000, endTime = 43000000\<rparr>"
  let ?e200 = "\<lparr>uuid = ''u'', new_Request = None, net = Responds 200 BodyRead,
       startTime = 1000000, endTime = 43000000\<rparr>"
  have d: "delay_ok 5000"
    by (simp add: delay_ok_def)
  then have dc: "delay_ok (timeout ?cfg)"
    by simp
  have a: "settles (singleRequest 7 ''http://localhost:8080'' ?cfg ?e500) = Inr (Failed 7 ''HTTP 500'' 42)"
    using singleRequest_classifies [OF dc, of ?e500 500 7 "''http://localhost:8080''"]
    by (simp add: show_nat.simps bigint_div_def)
  have b: "settles (singleRequest 7 ''http://localhost:8080'' ?cfg ?e200) = Inr (Success 7 200 42)"
    using singleRequest_classifies [OF dc, of ?e200 200 7 "''http://localhost:8080''"]
    by (simp add: bigint_div_def)
  from d a b show ?thesis by blast
qed

text \<open>
  C3, the counterexample.  The Go client does not classify by status: a response with
  status 500 is logged with the line of a finished request, the same line as a
  response with status 200, and \<open>makeRequest\<close> returns nothing.
\<close>

theorem makeRequest_500_counterexample:
  "lines (makeRequest (\<lambda>_. True)
      \<lparr>transport = \<lparr>MaxIdleConns = 10, MaxConnsPerHost = 10, IdleConnTimeout = 30000000000,
                     DisableKeepAlives = True\<rparr>, Timeout = 2000000000\<rparr>
      ''http://localhost:8080'' 1
      \<lparr>new_uuid = ''u'', do_returns = DoResponse ''500 Internal Server Error'' None\<rparr>)
     = [ReqStarting 1, ReqFinished 1 ''500 Internal Server Error'']
   \<and> lines (makeRequest (\<lambda>_. True)
      \<lparr>transport = \<lparr>MaxIdleConns = 10, MaxConnsPerHost = 10, IdleConnTimeout = 30000000000,
                     DisableKeepAlives = True\<rparr>, Timeout = 2000000000\<rparr>
      ''http://localhost:8080'' 1
      \<lparr>new_uuid = ''u'', do_returns = DoResponse ''200 OK'' None\<rparr>)
     = [ReqStarting 1, ReqFinished 1 ''200 OK'']"
  by (simp add: makeRequest_def)

text \<open>
  C2, at the failing input.  In \<open>request.js\<close>, with a timeout that
  \<open>AbortSignal.timeout\<close> accepts, a request that the timeout signal aborts, while
  \<open>fetch\<close> is pending or while the body is read, settles as \<open>failed\<close> with the
  message of the \<open>TimeoutError\<close> as its reason, not with \<open>Timeout\<close>: the \<open>catch\<close>
  compares the name with \<open>AbortError\<close>.
\<close>

theorem timeout_reason_is_message:
  "delay_ok (timeout cfg) \<Longrightarrow>
   settles (singleRequest i u cfg (env\<lparr>new_Request := None, net := FetchAborted\<rparr>)) =
     Inr (Failed i ''The operation was aborted due to timeout''
            (bigint_div (endTime env - startTime env) 1000000))
   \<and> settles (singleRequest i u cfg (env\<lparr>new_Request := None, net := Responds st BodyAborted\<rparr>)) =
     Inr (Failed i ''The operation was aborted due to timeout''
            (bigint_div (endTime env - startTime env) 1000000))
   \<and> ''The operation was aborted due to timeout'' \<noteq> ''Timeout''"
  by (simp add: singleRequest_def mk_fetchOptions_ok try_fetch_def fetch_def text_of_def
      RequestInit_of_def Let_def)

theorem timeout_reason_is_message_witness:
  "delay_ok 5000
   \<and> settles (singleRequest 1 ''http://localhost:8080''
       \<lparr>url = ''http://localhost:8080'', concurrency = 10, timeout = 5000, keepAlive = False\<rparr>
       \<lparr>uuid = ''u'', new_Request = None, net = FetchAborted,
        startTime = 0, endTime = 5001000000\<rparr>)
     = Inr (Failed 1 ''The operation was aborted due to timeout'' 5001)"
proof -
  let ?cfg = "\<lparr>url = ''http://localhost:8080'', concurrency = 10, timeout = 5000, keepAlive = False\<rparr>"
  let ?env = "\<lparr>uuid = ''u'', new_Request = None, net = FetchAborted,
        startTime = 0, endTime = 5001000000\<rparr>"
  have d: "delay_ok 5000"
    by (simp add: delay_ok_def)
  then have dc: "delay_ok (timeout ?cfg)"
    by simp
  from timeout_reason_is_message [OF dc, of 1 "''http://localhost:8080''" ?env, THEN conjunct1]
  have "settles (singleRequest 1 ''http://localhost:8080'' ?cfg ?env)
     = Inr (Failed 1 ''The operation was aborted due to timeout'' 5001)"
    by (simp add: bigint_div_def)
  with d show ?thesis by blast
qed

text \<open>
  C5, at the failing input.  In the second variant of the Node client every call of
  \<open>singleRequest\<close> is rejected with the \<open>TypeError\<close> of \<open>AbortController.timeout\<close>,
  thrown before the \<open>try\<close>: no outcome is returned.
\<close>

theorem singleRequest2_rejects:
  "singleRequest2 i u cfg env =
     Inl (Error ''TypeError'' ''AbortController.timeout is not a function'')"
  by (simp add: singleRequest2_def AbortController_timeout_def)

text \<open>
  C4, at the failing input.  The Go client reads \<open>*ms\<close> before \<open>flag.Parse()\<close>, so the
  timeout of its HTTP client is the default of 2000 milliseconds whatever the command
  line gives for \<open>-ms\<close>.
\<close>

theorem go_timeout_ignores_flag:
  "Timeout (snd (main_setup args)) = 2000 * Millisecond"
  by (simp add: main_setup_def Let_def flag_defaults_def wrap64_def Millisecond_def)

section \<open>The join of the Node client\<close>

lemma launch_eq:
  "launch cfg es i acc =
     acc @ map (\<lambda>k. singleRequest (k + 1) (url cfg) cfg (es k)) [i..concurrency cfg - 1]"
proof (induction cfg es i acc rule: launch.induct)
  case (1 cfg es i acc)
  show ?case
  proof (cases "i < concurrency cfg")
    case True
    then have "[i..concurrency cfg - 1] = i # [i + 1..concurrency cfg - 1]"
      by (simp add: upto_rec1)
    with True "1.IH" show ?thesis
      by (subst launch.simps) simp
  next
    case False
    then show ?thesis
      by (subst launch.simps) simp
  qed
qed

lemma settle_element_repr:
  assumes v: "values_array st =
      map (\<lambda>j. if j \<in> D then Some (settled_of (rs ! j)) else None) [0..<length rs]"
    and r: "remainingElementsCount st = length rs - card D"
    and d: "D \<subseteq> {0..<length rs}"
    and i: "i < length rs"
  shows "values_array (settle_element i (settled_of (rs ! i)) st) =
      map (\<lambda>j. if j \<in> insert i D then Some (settled_of (rs ! j)) else None) [0..<length rs]
    \<and> remainingElementsCount (settle_element i (settled_of (rs ! i)) st) =
      length rs - card (insert i D)"
proof (cases "i \<in> D")
  case True
  then have e: "insert i D = D" by auto
  from True i have "values_array st ! i \<noteq> None"
    unfolding v by simp
  then have "settle_element i (settled_of (rs ! i)) st = st"
    by (auto simp add: settle_element_def)
  with v r e show ?thesis by simp
next
  case False
  from d have fin: "finite D" by (rule finite_subset) simp
  from False v i have none: "values_array st ! i = None" by simp
  have len: "i < length (values_array st)" using v i by simp
  have "(values_array st)[i := Some (settled_of (rs ! i))] =
      map (\<lambda>j. if j \<in> insert i D then Some (settled_of (rs ! j)) else None) [0..<length rs]"
    using v i by (intro nth_equalityI) (auto simp: nth_list_update)
  moreover have "remainingElementsCount st - 1 = length rs - card (insert i D)"
    using r fin False by simp
  ultimately show ?thesis using none len by (simp add: settle_element_def)
qed

lemma settle_all_repr:
  assumes "values_array st =
      map (\<lambda>j. if j \<in> D then Some (settled_of (rs ! j)) else None) [0..<length rs]"
    and "remainingElementsCount st = length rs - card D"
    and "D \<subseteq> {0..<length rs}"
  shows "values_array (settle_all rs ord st) =
      map (\<lambda>j. if j \<in> D \<union> (set ord \<inter> {0..<length rs}) then Some (settled_of (rs ! j)) else None)
        [0..<length rs]
    \<and> remainingElementsCount (settle_all rs ord st) =
      length rs - card (D \<union> (set ord \<inter> {0..<length rs}))"
  using assms
proof (induction ord arbitrary: st D)
  case Nil
  then show ?case by simp
next
  case (Cons i ord)
  show ?case
  proof (cases "i < length rs")
    case True
    let ?st = "settle_element i (settled_of (rs ! i)) st"
    from settle_element_repr [OF Cons.prems True]
    have a: "values_array ?st =
        map (\<lambda>j. if j \<in> insert i D then Some (settled_of (rs ! j)) else None) [0..<length rs]"
      and b: "remainingElementsCount ?st = length rs - card (insert i D)"
      by simp_all
    from Cons.prems(3) True have c: "insert i D \<subseteq> {0..<length rs}" by simp
    have e: "insert i D \<union> (set ord \<inter> {0..<length rs}) = D \<union> (set (i # ord) \<inter> {0..<length rs})"
      using True by auto
    from Cons.IH [OF a b c] True show ?thesis
      by (simp only: e settle_all.simps if_True)
  next
    case False
    then have e: "D \<union> (set ord \<inter> {0..<length rs}) = D \<union> (set (i # ord) \<inter> {0..<length rs})"
      by auto
    from Cons.IH [OF Cons.prems] False show ?thesis
      by (simp only: e settle_all.simps if_False)
  qed
qed

lemma await_allSettled_eq:
  "await_allSettled rs ord =
     (if {0..<length rs} \<subseteq> set ord then Some (map settled_of rs) else None)"
proof -
  let ?n = "length rs"
  let ?D = "set ord \<inter> {0..<?n}"
  let ?st = "settle_all rs ord (allSettled_start ?n)"
  have "values_array (allSettled_start ?n :: 'a allSettled_state) =
      map (\<lambda>j. if j \<in> {} then Some (settled_of (rs ! j)) else None) [0..<?n]"
    by (simp add: allSettled_start_def map_replicate_const)
  moreover have "remainingElementsCount (allSettled_start ?n :: 'a allSettled_state) = ?n - card ({} :: nat set)"
    by (simp add: allSettled_start_def)
  ultimately have
    v: "values_array ?st = map (\<lambda>j. if j \<in> ?D then Some (settled_of (rs ! j)) else None) [0..<?n]"
    and r: "remainingElementsCount ?st = ?n - card ?D"
    using settle_all_repr [of "allSettled_start ?n" "{}" rs ord] by simp_all
  have le: "card ?D \<le> ?n"
    using card_mono [of "{0..<?n}" ?D] by simp
  show ?thesis
  proof (cases "{0..<?n} \<subseteq> set ord")
    case True
    then have D: "?D = {0..<?n}" by auto
    have "map the (values_array ?st) = map settled_of rs"
      unfolding v D by (intro nth_equalityI) simp_all
    moreover have "remainingElementsCount ?st = 0" using r D by simp
    ultimately show ?thesis using True by (simp add: await_allSettled_def resolved_def)
  next
    case False
    then have "?D \<noteq> {0..<?n}" by auto
    then have "card ?D \<noteq> ?n"
      using card_subset_eq [of "{0..<?n}" ?D] by auto
    with le r have "remainingElementsCount ?st \<noteq> 0" by simp
    with False show ?thesis by (simp add: await_allSettled_def resolved_def)
  qed
qed

lemma batch_settles_all:
  "batch cfg b =
     (if {0..<nat (concurrency cfg)} \<subseteq> set (order b) then
        Some \<lparr>requests_of =
                 map (\<lambda>k. singleRequest (k + 1) (url cfg) cfg (envs b k)) [0..concurrency cfg - 1],
              outcomes =
                 map (\<lambda>k. settled_of (settles (singleRequest (k + 1) (url cfg) cfg (envs b k))))
                   [0..concurrency cfg - 1],
              total = LogTotal (bigint_div (totalEndTime b - totalStartTime b) 1000000)\<rparr>
      else None)"
  by (simp add: batch_def launch_eq await_allSettled_eq Let_def comp_def)

section \<open>Invariants of the Go loop\<close>





lemma go_inv_init: "go_inv (init_state vars)"
  by (simp add: go_inv_def init_state_def)

lemma go_inv_launch:
  assumes "go_inv s" and "at s = Launching i" and "i < n"
  shows "go_inv (s\<lparr>wg := wg s + 1, inflight := inflight s @ [(batchNumber s, i + 1)],
                    at := Launching (i + 1)\<rparr>)"
proof -
  from assms have "(batchNumber s, i + 1) \<notin> set (inflight s)"
    by (fastforce simp: go_inv_def)
  with assms show ?thesis
    by (fastforce simp: go_inv_def)
qed

lemma go_inv_done:
  assumes "go_inv s" and mem: "(b, i) \<in> set (inflight s)"
  shows "go_inv (s\<lparr>wg := wg s - 1, inflight := remove1 (b, i) (inflight s), printed := ls\<rparr>)"
proof -
  from mem have "0 < length (inflight s)"
    by (rule length_pos_if_in_set)
  then have "int (length (inflight s) - 1) = int (length (inflight s)) - 1"
    by (cases "inflight s") simp_all
  with mem have len: "int (length (remove1 (b, i) (inflight s))) = int (length (inflight s)) - 1"
    by (simp add: length_remove1)
  have sub: "set (remove1 (b, i) (inflight s)) \<subseteq> set (inflight s)"
    by (rule set_remove1_subset)
  from assms(1) have a: "\<forall>(b, k) \<in> set (inflight s). b = batchNumber s"
    and w: "wg s = int (length (inflight s))" and d: "distinct (inflight s)"
    by (simp_all add: go_inv_def)
  from a sub have a': "\<forall>(b', k) \<in> set (remove1 (b, i) (inflight s)). b' = batchNumber s"
    by blast
  have c': "case at s of
         Launching j \<Rightarrow> 0 \<le> j \<and> (\<forall>(b', k) \<in> set (remove1 (b, i) (inflight s)). 1 \<le> k \<and> k \<le> j)
       | Waiting \<Rightarrow> True | Crashed \<Rightarrow> True"
  proof (cases "at s")
    case (Launching j)
    with assms(1) have "0 \<le> j" and "\<forall>(b', k) \<in> set (inflight s). 1 \<le> k \<and> k \<le> j"
      by (simp_all add: go_inv_def)
    with sub Launching show ?thesis by auto
  qed simp_all
  from a' w len d c' show ?thesis
    by (auto simp: go_inv_def split: pc.splits)
qed

lemma go_inv_step:
  assumes st: "step nr vars client ev s = Some s'" and inv: "go_inv s"
  shows "go_inv s'"
proof (cases ev)
  case MainStep
  show ?thesis
  proof (cases "at s")
    case (Launching i)
    show ?thesis
    proof (cases "i < flag_n vars")
      case True
      with st MainStep Launching have "s' = s\<lparr>wg := wg s + 1,
          inflight := inflight s @ [(batchNumber s, i + 1)], at := Launching (i + 1)\<rparr>"
        by (simp add: step_def)
      with go_inv_launch [OF inv Launching True] show ?thesis by simp
    next
      case False
      with st MainStep Launching
      have "s' = s\<lparr>at := Waiting, printed := printed s @ [WaitingForAll]\<rparr>"
        by (simp add: step_def)
      with inv show ?thesis by (simp add: go_inv_def)
    qed
  next
    case Waiting
    with st MainStep have z: "wg s = 0" and s': "s' = s\<lparr>batchNumber := wrap64 (batchNumber s + 1),
        at := Launching 0, wg := 0,
        printed := printed s @ [BatchCompleted (batchNumber s) (flag_n vars),
                                BatchStarting (wrap64 (batchNumber s + 1))]\<rparr>"
      by (simp_all add: step_def split: if_splits)
    from z inv have "inflight s = []" by (simp add: go_inv_def)
    with s' show ?thesis by (simp add: go_inv_def)
  next
    case Crashed
    with st MainStep show ?thesis by (simp add: step_def)
  qed
next
  case (Goroutine b i env)
  let ?m = "makeRequest nr client (flag_url vars) i env"
  from st Goroutine have mem: "(b, i) \<in> set (inflight s)" and nc: "at s \<noteq> Crashed"
    by (auto simp: step_def split: if_splits)
  from mem inv have b: "b = batchNumber s" by (auto simp: go_inv_def)
  show ?thesis
  proof (cases "panicked ?m")
    case True
    with st Goroutine mem nc
    have "s' = s\<lparr>at := Crashed, printed := printed s @ lines ?m\<rparr>"
      by (simp add: step_def Let_def)
    with inv show ?thesis by (simp add: go_inv_def)
  next
    case False
    with st Goroutine mem nc b have "s' = s\<lparr>wg := wg s - 1,
        inflight := remove1 (b, i) (inflight s), printed := printed s @ lines ?m\<rparr>"
      by (simp add: step_def Let_def)
    with go_inv_done [OF inv mem] show ?thesis by simp
  qed
qed

lemma go_inv_run:
  "run nr vars client evs s = Some s' \<Longrightarrow> go_inv s \<Longrightarrow> go_inv s'"
proof (induction evs arbitrary: s)
  case Nil
  then show ?case by simp
next
  case (Cons ev evs)
  from Cons.prems(1) obtain s1 where s1: "step nr vars client ev s = Some s1"
    and r: "run nr vars client evs s1 = Some s'"
    by (auto split: option.splits)
  from go_inv_step [OF s1 Cons.prems(2)] have "go_inv s1" .
  with r show ?case by (rule Cons.IH)
qed






lemma step_enabled:
  assumes inv: "go_inv s" and nc: "at s \<noteq> Crashed"
  shows "step nr vars client MainStep s \<noteq> None
    \<or> (\<exists>b i. (b, i) \<in> set (inflight s) \<and> (\<forall>env. step nr vars client (Goroutine b i env) s \<noteq> None))"
proof (cases "at s")
  case (Launching i)
  then show ?thesis by (simp add: step_def)
next
  case Waiting
  show ?thesis
  proof (cases "wg s = 0")
    case True
    with Waiting show ?thesis by (simp add: step_def)
  next
    case False
    with inv have "inflight s \<noteq> []" by (auto simp: go_inv_def)
    then obtain b i where "(b, i) \<in> set (inflight s)"
      by (cases "inflight s") auto
    moreover from this nc have "\<forall>env. step nr vars client (Goroutine b i env) s \<noteq> None"
      by (simp add: step_def Let_def)
    ultimately show ?thesis by blast
  qed
next
  case Crashed
  with nc show ?thesis by simp
qed

lemma step_outcome_independent:
  assumes "nr (flag_url vars)" and "step nr vars client (Goroutine b i env) s = Some s1"
  shows "\<exists>s2. step nr vars client (Goroutine b i env') s = Some s2 \<and>
     batchNumber s2 = batchNumber s1 \<and> at s2 = at s1 \<and> wg s2 = wg s1 \<and> inflight s2 = inflight s1"
  using assms
  by (auto simp: step_def Let_def makeRequest_def split: if_splits do_result.splits option.splits)

lemma run_append:
  "run nr vars client (xs @ ys) s =
     (case run nr vars client xs s of None \<Rightarrow> None | Some s1 \<Rightarrow> run nr vars client ys s1)"
  by (induction xs arbitrary: s) (auto split: option.splits)

lemma run_launching:
  assumes "at s = Launching i" and "k = nat (flag_n vars - i)"
  shows "\<exists>s'. run nr vars client (replicate k MainStep @ [MainStep]) s = Some s' \<and>
     at s' = Waiting \<and> batchNumber s' = batchNumber s \<and>
     printed s' = printed s @ [WaitingForAll] \<and>
     inflight s' = inflight s @ map (\<lambda>j. (batchNumber s, j)) [i + 1..flag_n vars] \<and>
     wg s' = wg s + int k"
  using assms
proof (induction k arbitrary: s i)
  case 0
  then have "\<not> i < flag_n vars" by simp
  with 0 show ?case by (simp add: step_def)
next
  case (Suc k)
  then have lt: "i < flag_n vars" by simp
  let ?s1 = "s\<lparr>wg := wg s + 1, inflight := inflight s @ [(batchNumber s, i + 1)],
                 at := Launching (i + 1)\<rparr>"
  from Suc.prems lt have st: "step nr vars client MainStep s = Some ?s1"
    by (simp add: step_def)
  have "at ?s1 = Launching (i + 1)" by simp
  moreover from Suc.prems have "k = nat (flag_n vars - (i + 1))" by simp
  ultimately obtain s' where
    "run nr vars client (replicate k MainStep @ [MainStep]) ?s1 = Some s'"
    "at s' = Waiting" "batchNumber s' = batchNumber ?s1" "printed s' = printed ?s1 @ [WaitingForAll]"
    "inflight s' = inflight ?s1 @ map (\<lambda>j. (batchNumber ?s1, j)) [i + 1 + 1..flag_n vars]"
    "wg s' = wg ?s1 + int k"
    using Suc.IH by blast
  moreover from lt have "[i + 1..flag_n vars] = (i + 1) # [i + 1 + 1..flag_n vars]"
    by (simp add: upto_rec1)
  ultimately show ?case using st by simp
qed


section \<open>One batch\<close>

lemma map_Suc_upto: "map (\<lambda>k. k + 1) [i..j] = [i + 1..j + 1]"
  by (intro nth_equalityI) simp_all

lemma batch_in_range:
  assumes "1 \<le> concurrency cfg" and "delay_ok (timeout cfg)"
  shows "if {0..<nat (concurrency cfg)} \<subseteq> set (order b) then
           \<exists>r outs. batch cfg b = Some r
             \<and> requests_of r =
                 map (\<lambda>k. singleRequest (k + 1) (url cfg) cfg (envs b k)) [0..concurrency cfg - 1]
             \<and> outcomes r = map fulfilled outs
             \<and> length outs = nat (concurrency cfg)
             \<and> map req_id outs = [1..concurrency cfg]
             \<and> distinct (map req_id outs)
             \<and> set (map req_id outs) = {1..concurrency cfg}
         else batch cfg b = None"
proof (cases "{0..<nat (concurrency cfg)} \<subseteq> set (order b)")
  case False
  then show ?thesis by (simp add: batch_settles_all)
next
  case True
  let ?p = "\<lambda>k. singleRequest (k + 1) (url cfg) cfg (envs b k)"
  let ?outs = "map (\<lambda>k. projr (settles (?p k))) [0..concurrency cfg - 1]"
  have f: "\<And>k. settles (?p k) = Inr (projr (settles (?p k))) \<and> req_id (projr (settles (?p k))) = k + 1"
    using singleRequest_fulfils [OF assms(2)] by (metis sum.sel(2))
  have o: "map (\<lambda>k. settled_of (settles (?p k))) [0..concurrency cfg - 1] = map fulfilled ?outs"
  proof -
    have "\<And>k. settled_of (settles (?p k)) = fulfilled (projr (settles (?p k)))"
      using f by (metis settled_of_def sum.case(2))
    then show ?thesis by (simp add: comp_def)
  qed
  have ids: "map req_id ?outs = [1..concurrency cfg]"
    using f map_Suc_upto [of 0 "concurrency cfg - 1"] by (simp add: comp_def)
  have len: "length ?outs = nat (concurrency cfg)"
    by simp
  have d: "distinct (map req_id ?outs)" and st: "set (map req_id ?outs) = {1..concurrency cfg}"
    unfolding ids by simp_all
  define r where "r = \<lparr>requests_of = map ?p [0..concurrency cfg - 1],
      outcomes = map (\<lambda>k. settled_of (settles (?p k))) [0..concurrency cfg - 1],
      total = LogTotal (bigint_div (totalEndTime b - totalStartTime b) 1000000)\<rparr>"
  from True have b: "batch cfg b = Some r"
    by (simp add: batch_settles_all r_def)
  have rq: "requests_of r = map ?p [0..concurrency cfg - 1]"
    by (simp add: r_def)
  have oc: "outcomes r = map fulfilled ?outs"
    using o by (simp add: r_def)
  have "\<exists>r outs. batch cfg b = Some r
         \<and> requests_of r = map ?p [0..concurrency cfg - 1]
         \<and> outcomes r = map fulfilled outs
         \<and> length outs = nat (concurrency cfg)
         \<and> map req_id outs = [1..concurrency cfg]
         \<and> distinct (map req_id outs)
         \<and> set (map req_id outs) = {1..concurrency cfg}"
    by (intro exI [of _ r] exI [of _ ?outs] conjI) (fact b rq oc len ids d st)+
  with True show ?thesis by (simp only: if_True)
qed

lemma go_launch_and_wait:
  assumes g: "go_main nr args evs = Some s"
  shows "(at s = Launching 0 \<longrightarrow>
      (\<exists>s'. go_main nr args
              (evs @ replicate (nat (flag_n (fst (main_setup args)))) MainStep @ [MainStep]) = Some s'
         \<and> at s' = Waiting
         \<and> inflight s' = map (\<lambda>j. (batchNumber s, j)) [1..flag_n (fst (main_setup args))]
         \<and> wg s' = int (length (inflight s'))))
    \<and> (at s = Waiting \<longrightarrow>
      (step nr (fst (main_setup args)) (snd (main_setup args)) MainStep s = None) = (inflight s \<noteq> []))"
proof -
  obtain vars client where m: "main_setup args = (vars, client)"
    by (cases "main_setup args")
  with g have r: "run nr vars client evs (init_state vars) = Some s"
    by (simp add: go_main_def)
  from go_inv_run [OF r go_inv_init] have inv: "go_inv s" .
  have a: "\<exists>s'. go_main nr args (evs @ replicate (nat (flag_n vars)) MainStep @ [MainStep]) = Some s'
         \<and> at s' = Waiting
         \<and> inflight s' = map (\<lambda>j. (batchNumber s, j)) [1..flag_n vars]
         \<and> wg s' = int (length (inflight s'))" if l: "at s = Launching 0"
  proof -
    from inv l have "\<forall>(b, k) \<in> set (inflight s). 1 \<le> k \<and> k \<le> 0"
      by (simp add: go_inv_def)
    then have e: "inflight s = []"
      by (cases "inflight s") auto
    with inv have w: "wg s = 0"
      by (simp add: go_inv_def)
    from run_launching [OF l, of "nat (flag_n vars)" vars nr client]
    obtain s' where s': "run nr vars client (replicate (nat (flag_n vars)) MainStep @ [MainStep]) s = Some s'"
      "at s' = Waiting"
      "inflight s' = inflight s @ map (\<lambda>j. (batchNumber s, j)) [0 + 1..flag_n vars]"
      "wg s' = wg s + int (nat (flag_n vars))"
      by auto
    have "go_main nr args (evs @ replicate (nat (flag_n vars)) MainStep @ [MainStep]) = Some s'"
      using m by (simp only: go_main_def Let_def prod.case run_append [where xs = evs] r option.case s'(1))
    moreover from s'(3) e have "inflight s' = map (\<lambda>j. (batchNumber s, j)) [1..flag_n vars]"
      by simp
    moreover from this s'(4) w have "wg s' = int (length (inflight s'))"
      by simp
    ultimately show ?thesis using s'(2) by blast
  qed
  have b: "(step nr vars client MainStep s = None) = (inflight s \<noteq> [])" if "at s = Waiting"
    using that inv by (auto simp: step_def go_inv_def)
  from a b m show ?thesis by simp
qed

text \<open>
  C1, as amended.  Node client: for a concurrency of at least 1 and a timeout that
  \<open>AbortSignal.timeout\<close> accepts, one turn of the loop of \<open>request.js\<close> calls
  \<open>singleRequest\<close> once for every \<open>id\<close> from 1 to the concurrency, in that order; its
  \<open>await\<close> resumes when every one of these promises has settled and not before,
  whatever the outcomes; and the array it resumes with has one entry for each request,
  each fulfilled with an outcome, with the \<open>id\<close>s 1, 2, ... up to the concurrency in the
  order of the calls, for every order in which the promises settle.  Go client: at the
  start of a batch the launch loop starts the goroutines with the \<open>id\<close>s 1 to
  \<open>*numRequests\<close> in that order and counts each in the \<open>WaitGroup\<close>, and
  \<open>wg.Wait()\<close> does not return while one of them is in flight; no outcomes are
  collected.
\<close>

theorem batch_outcomes:
  "(1 \<le> concurrency cfg \<and> delay_ok (timeout cfg) \<longrightarrow>
      (if {0..<nat (concurrency cfg)} \<subseteq> set (order b) then
           \<exists>r outs. batch cfg b = Some r
             \<and> requests_of r =
                 map (\<lambda>k. singleRequest (k + 1) (url cfg) cfg (envs b k)) [0..concurrency cfg - 1]
             \<and> outcomes r = map fulfilled outs
             \<and> length outs = nat (concurrency cfg)
             \<and> map req_id outs = [1..concurrency cfg]
             \<and> distinct (map req_id outs)
             \<and> set (map req_id outs) = {1..concurrency cfg}
         else batch cfg b = None))
   \<and> (go_main nr args evs = Some s \<longrightarrow>
      (at s = Launching 0 \<longrightarrow>
         (\<exists>s'. go_main nr args
                 (evs @ replicate (nat (flag_n (fst (main_setup args)))) MainStep @ [MainStep]) = Some s'
            \<and> at s' = Waiting
            \<and> inflight s' = map (\<lambda>j. (batchNumber s, j)) [1..flag_n (fst (main_setup args))]
            \<and> wg s' = int (length (inflight s'))))
      \<and> (at s = Waiting \<longrightarrow>
         (step nr (fst (main_setup args)) (snd (main_setup args)) MainStep s = None) =
           (inflight s \<noteq> [])))"
  using batch_in_range [of cfg b] go_launch_and_wait [of nr args evs s] by blast

theorem batch_outcomes_witness:
  "(\<exists>r outs. batch \<lparr>url = ''http://localhost:8080'', concurrency = 3, timeout = 5000, keepAlive = False\<rparr>
      \<lparr>envs = (\<lambda>k. \<lparr>uuid = ''u'', new_Request = None,
                      net = (if k = 1 then FetchAborted else Responds 200 BodyRead),
                      startTime = 0, endTime = 2000000\<rparr>),
       order = [2, 0, 1], totalStartTime = 0, totalEndTime = 5000000\<rparr> = Some r
     \<and> outcomes r = map fulfilled outs \<and> map req_id outs = [1, 2, 3])
   \<and> batch \<lparr>url = ''http://localhost:8080'', concurrency = 3, timeout = 5000, keepAlive = False\<rparr>
      \<lparr>envs = (\<lambda>k. \<lparr>uuid = ''u'', new_Request = None,
                      net = (if k = 1 then FetchAborted else Responds 200 BodyRead),
                      startTime = 0, endTime = 2000000\<rparr>),
       order = [2, 0], totalStartTime = 0, totalEndTime = 5000000\<rparr> = None
   \<and> (\<exists>s'. go_main (\<lambda>_. True) \<lparr>arg_url = None, arg_keepalive = None, arg_n = Some 2, arg_ms = None\<rparr>
          [MainStep, MainStep, MainStep] = Some s'
      \<and> at s' = Waiting \<and> inflight s' = [(1, 1), (1, 2)] \<and> wg s' = 2
      \<and> step (\<lambda>_. True)
            (fst (main_setup \<lparr>arg_url = None, arg_keepalive = None, arg_n = Some 2, arg_ms = None\<rparr>))
            (snd (main_setup \<lparr>arg_url = None, arg_keepalive = None, arg_n = Some 2, arg_ms = None\<rparr>))
            MainStep s' = None)"
proof -
  let ?cfg = "\<lparr>url = ''http://localhost:8080'', concurrency = 3, timeout = 5000, keepAlive = False\<rparr>"
  let ?e = "\<lambda>k::int. \<lparr>uuid = ''u'', new_Request = None,
                      net = (if k = 1 then FetchAborted else Responds 200 BodyRead),
                      startTime = 0, endTime = 2000000\<rparr>"
  let ?b1 = "\<lparr>envs = ?e, order = [2, 0, 1], totalStartTime = 0, totalEndTime = 5000000\<rparr>"
  let ?b2 = "\<lparr>envs = ?e, order = [2, 0], totalStartTime = 0, totalEndTime = 5000000\<rparr>"
  let ?args = "\<lparr>arg_url = None, arg_keepalive = None, arg_n = Some 2, arg_ms = None\<rparr>"
  have c: "1 \<le> concurrency ?cfg \<and> delay_ok (timeout ?cfg)"
    by (simp add: delay_ok_def)
  have full: "{0..<nat (concurrency ?cfg)} \<subseteq> set (order ?b1)"
    by (auto simp: atLeastLessThan_def)
  have "(1::nat) \<in> {0..<nat (concurrency ?cfg)}" and "(1::nat) \<notin> set (order ?b2)"
    by simp_all
  then have part: "\<not> {0..<nat (concurrency ?cfg)} \<subseteq> set (order ?b2)"
    by blast
  have u: "[1..concurrency ?cfg] = [1, 2, 3]"
    by (simp add: upto_rec1)
  from batch_outcomes [where cfg = ?cfg and b = ?b1, THEN conjunct1, THEN mp, OF c] full
  have a: "\<exists>r outs. batch ?cfg ?b1 = Some r
     \<and> outcomes r = map fulfilled outs \<and> map req_id outs = [1, 2, 3]"
    unfolding u [symmetric] by (simp only: if_True) blast
  from batch_outcomes [where cfg = ?cfg and b = ?b2, THEN conjunct1, THEN mp, OF c] part
  have b: "batch ?cfg ?b2 = None"
    by (simp only: if_False)
  have n: "flag_n (fst (main_setup ?args)) = 2"
    by (simp add: main_setup_def flag_Parse_def flag_defaults_def Let_def)
  obtain s0 where s0: "go_main (\<lambda>_. True) ?args [] = Some s0"
    and l0: "at s0 = Launching 0" and b0: "batchNumber s0 = 1"
    by (simp add: go_main_def main_setup_def flag_defaults_def flag_Parse_def init_state_def Let_def)
  have ev: "[] @ replicate (nat 2) MainStep @ [MainStep] = [MainStep, MainStep, MainStep]"
    by (simp add: numeral_2_eq_2)
  have u2: "[1..2] = [1, 2 :: int]"
    by (simp add: upto_rec1)
  from batch_outcomes [where nr = "\<lambda>_. True" and args = ?args and evs = "[]" and s = s0,
      THEN conjunct2, THEN mp, OF s0, THEN conjunct1, THEN mp, OF l0]
  obtain s' where s': "go_main (\<lambda>_. True) ?args [MainStep, MainStep, MainStep] = Some s'"
    and w: "at s' = Waiting" and i: "inflight s' = [(1, 1), (1, 2)]"
    and g: "wg s' = int (length (inflight s'))"
    unfolding n ev b0 u2 by auto
  from batch_outcomes [where nr = "\<lambda>_. True" and args = ?args and evs = "[MainStep, MainStep, MainStep]"
      and s = s', THEN conjunct2, THEN mp, OF s', THEN conjunct2, THEN mp, OF w] i
  have blocked: "step (\<lambda>_. True) (fst (main_setup ?args)) (snd (main_setup ?args)) MainStep s' = None"
    by simp
  from g i have "wg s' = 2"
    by simp
  with a b s' w i blocked show ?thesis
    by blast
qed

text \<open>
  C1, the counterexample.  With the validated timeout 5000000000 the promise of
  \<open>singleRequest\<close> is rejected by the \<open>RangeError\<close> of the signal, so the entry of the
  array is a rejection without \<open>id\<close>.  In the Go client the only record of the
  requests are the printed lines, which follow the order of completion (here request 2
  before request 1).
\<close>

theorem batch_outcomes_counterexample:
  "batch \<lparr>url = ''http://localhost:8080'', concurrency = 1, timeout = 5000000000, keepAlive = False\<rparr>
      \<lparr>envs = (\<lambda>k. \<lparr>uuid = ''u'', new_Request = None, net = Responds 200 BodyRead,
                      startTime = 0, endTime = 2000000\<rparr>),
       order = [0], totalStartTime = 0, totalEndTime = 5000000\<rparr>
     = Some \<lparr>requests_of =
               [\<lparr>logged = [], fetched = None,
                 settles = Inl (Error ''RangeError'' ''The value of delay is out of range.'')\<rparr>],
             outcomes = [rejected (Error ''RangeError'' ''The value of delay is out of range.'')],
             total = LogTotal 5\<rparr>
   \<and> go_main (\<lambda>_. True) \<lparr>arg_url = None, arg_keepalive = None, arg_n = Some 2, arg_ms = None\<rparr>
       [MainStep, MainStep, MainStep,
        Goroutine 1 2 \<lparr>new_uuid = ''a'', do_returns = DoResponse ''200 OK'' None\<rparr>,
        Goroutine 1 1 \<lparr>new_uuid = ''b'', do_returns = DoResponse ''200 OK'' None\<rparr>,
        MainStep]
     = Some \<lparr>batchNumber = 2, at = Launching 0, wg = 0, inflight = [],
             printed = [StartingParallel 2 ''http://localhost:8080'', StartingLoop, BatchStarting 1,
                        WaitingForAll, ReqStarting 2, ReqFinished 2 ''200 OK'',
                        ReqStarting 1, ReqFinished 1 ''200 OK'',
                        BatchCompleted 1 2, BatchStarting 2]\<rparr>"
proof
  let ?cfg = "\<lparr>url = ''http://localhost:8080'', concurrency = 1, timeout = 5000000000, keepAlive = False\<rparr>"
  have d: "\<not> delay_ok (timeout ?cfg)"
    by (simp add: delay_ok_def)
  have u: "[0..concurrency ?cfg - 1] = [0]"
    by simp
  show "batch ?cfg
      \<lparr>envs = (\<lambda>k. \<lparr>uuid = ''u'', new_Request = None, net = Responds 200 BodyRead,
                      startTime = 0, endTime = 2000000\<rparr>),
       order = [0], totalStartTime = 0, totalEndTime = 5000000\<rparr>
     = Some \<lparr>requests_of =
               [\<lparr>logged = [], fetched = None,
                 settles = Inl (Error ''RangeError'' ''The value of delay is out of range.'')\<rparr>],
             outcomes = [rejected (Error ''RangeError'' ''The value of delay is out of range.'')],
             total = LogTotal 5\<rparr>"
    unfolding batch_settles_all u
    by (simp add: singleRequest_out_of_range [OF d] settled_of_def bigint_div_def)
next
  show "go_main (\<lambda>_. True) \<lparr>arg_url = None, arg_keepalive = None, arg_n = Some 2, arg_ms = None\<rparr>
       [MainStep, MainStep, MainStep,
        Goroutine 1 2 \<lparr>new_uuid = ''a'', do_returns = DoResponse ''200 OK'' None\<rparr>,
        Goroutine 1 1 \<lparr>new_uuid = ''b'', do_returns = DoResponse ''200 OK'' None\<rparr>,
        MainStep]
     = Some \<lparr>batchNumber = 2, at = Launching 0, wg = 0, inflight = [],
             printed = [StartingParallel 2 ''http://localhost:8080'', StartingLoop, BatchStarting 1,
                        WaitingForAll, ReqStarting 2, ReqFinished 2 ''200 OK'',
                        ReqStarting 1, ReqFinished 1 ''200 OK'',
                        BatchCompleted 1 2, BatchStarting 2]\<rparr>"
    by (simp add: go_main_def main_setup_def flag_defaults_def flag_Parse_def init_state_def
        step_def makeRequest_def wrap64_def Let_def)
qed

section \<open>The sequence of batches\<close>



section \<open>The loop goes on; the arguments are checked\<close>





text \<open>
  C6, as amended.  In the Node client, when the parsed concurrency or the parsed timeout
  is \<open>NaN\<close> or less than 1, \<open>main\<close> ends with \<open>process.exit(1)\<close> inside
  \<open>getArgs\<close>, before the loop: no turn is run, whatever the environments.
\<close>

theorem getArgs_rejects_nonpositive:
  assumes "isNaN (parseInt (v_concurrency vals)) \<or> num_less (parseInt (v_concurrency vals)) 1
      \<or> isNaN (parseInt (v_timeout vals)) \<or> num_less (parseInt (v_timeout vals)) 1"
  shows "\<exists>msg. main URL_ok (Inr vals) bs = Inl (Exit 1 msg)"
  using assms by (auto simp: main_def getArgs_def Let_def)

theorem getArgs_rejects_nonpositive_witness:
  "(\<exists>msg. main (\<lambda>_. True)
      (Inr \<lparr>v_url = Some ''http://localhost:8080'', v_concurrency = ''0'', v_timeout = ''5000'',
            v_keepalive = False\<rparr>) [] = Inl (Exit 1 msg))
   \<and> (\<exists>msg. main (\<lambda>_. True)
      (Inr \<lparr>v_url = Some ''http://localhost:8080'', v_concurrency = ''10'', v_timeout = ''-5'',
            v_keepalive = False\<rparr>) [] = Inl (Exit 1 msg))
   \<and> (\<exists>msg. main (\<lambda>_. True)
      (Inr \<lparr>v_url = Some ''http://localhost:8080'', v_concurrency = ''ten'', v_timeout = ''5000'',
            v_keepalive = False\<rparr>) [] = Inl (Exit 1 msg))"
proof -
  have a: "num_less (parseInt ''0'') 1" and b: "num_less (parseInt ''-5'') 1"
    and c: "isNaN (parseInt ''ten'')"
    by (simp_all add: parseInt_def is_space_def is_digit_def digits_value_def num_less_def
        isNaN_def Let_def)
  show ?thesis
    using a b c
    by (intro conjI getArgs_rejects_nonpositive) simp_all
qed

text \<open>
  C6, the counterexample.  The Go client checks neither flag: with \<open>-n=0 -ms=0\<close> it
  enters the loop, completes batch 1 with no request and starts batch 2.
\<close>

theorem go_accepts_nonpositive_counterexample:
  "go_main (\<lambda>_. True) \<lparr>arg_url = None, arg_keepalive = None, arg_n = Some 0, arg_ms = Some 0\<rparr>
     [MainStep, MainStep] =
   Some \<lparr>batchNumber = 2, at = Launching 0, wg = 0, inflight = [],
         printed = [StartingParallel 0 ''http://localhost:8080'', StartingLoop, BatchStarting 1,
                    WaitingForAll, BatchCompleted 1 0, BatchStarting 2]\<rparr>"
  by (simp add: go_main_def main_setup_def flag_defaults_def flag_Parse_def init_state_def
      step_def wrap64_def Let_def)


section \<open>The request header and the keep-alive flag\<close>







text \<open>
  The Go client builds one HTTP client before the loop, and its transport has
  \<open>DisableKeepAlives\<close> set to the negation of the flag \<open>-keepalive\<close> (false when the
  flag is not given).
\<close>

theorem go_keepalive_follows_flag:
  "DisableKeepAlives (transport (snd (main_setup args))) =
     (\<not> (case arg_keepalive args of None \<Rightarrow> False | Some v \<Rightarrow> v))"
  by (simp add: main_setup_def flag_Parse_def flag_defaults_def Let_def split: option.splits)

text \<open>
  C9, at the failing input.  In \<open>request.js\<close> the flag reaches \<open>fetch\<close> only as the
  key \<open>agent\<close>, which \<open>fetch\<close> does not read: what \<open>fetch\<close> is given, and how the
  request settles, are the same for \<open>keepAlive\<close> true and false.
\<close>

theorem keepAlive_not_read:
  "map_sum id RequestInit_of (mk_fetchOptions (cfg\<lparr>keepAlive := True\<rparr>) u) =
     map_sum id RequestInit_of (mk_fetchOptions (cfg\<lparr>keepAlive := False\<rparr>) u)
   \<and> settles (singleRequest i v (cfg\<lparr>keepAlive := True\<rparr>) env) =
     settles (singleRequest i v (cfg\<lparr>keepAlive := False\<rparr>) env)"
proof (cases "delay_ok (timeout cfg)")
  case False
  then have "\<not> delay_ok (timeout (cfg\<lparr>keepAlive := True\<rparr>))"
    and "\<not> delay_ok (timeout (cfg\<lparr>keepAlive := False\<rparr>))"
    by simp_all
  then show ?thesis
    by (simp add: singleRequest_out_of_range mk_fetchOptions_out_of_range)
next
  case True
  then have dt: "delay_ok (timeout (cfg\<lparr>keepAlive := True\<rparr>))"
    and df: "delay_ok (timeout (cfg\<lparr>keepAlive := False\<rparr>))"
    by simp_all
  let ?sig = "\<lparr>delay = timeout cfg,
      abort_reason = Error ''TimeoutError'' ''The operation was aborted due to timeout''\<rparr>"
  let ?fo = "\<lambda>k w. \<lparr>signal = ?sig, http_method = ''GET'', agent = \<lparr>agent_keepAlive = k\<rparr>,
      headers = [(''x-mgc-test-id'', w)]\<rparr>"
  have mt: "\<And>w. mk_fetchOptions (cfg\<lparr>keepAlive := True\<rparr>) w = Inr (?fo True w)"
    using mk_fetchOptions_ok [OF dt] by simp
  have mf: "\<And>w. mk_fetchOptions (cfg\<lparr>keepAlive := False\<rparr>) w = Inr (?fo False w)"
    using mk_fetchOptions_ok [OF df] by simp
  have r: "\<And>w. RequestInit_of (?fo True w) = RequestInit_of (?fo False w)"
    by (simp add: RequestInit_of_def)
  have t: "try_fetch (?fo True (uuid env)) env = try_fetch (?fo False (uuid env)) env"
    unfolding try_fetch_def r by (rule refl)
  have "settles (singleRequest i v (cfg\<lparr>keepAlive := True\<rparr>) env) =
      settles (singleRequest i v (cfg\<lparr>keepAlive := False\<rparr>) env)"
    by (simp add: singleRequest_def mt mf Let_def t split: sum.splits)
  then show ?thesis
    by (simp add: mt mf r)
qed


section \<open>Further properties of the two clients\<close>

text \<open>
  The launch loop of the Go client: from the start of the program, the steps of the
  \<open>for\<close> loop launch the goroutines with the \<open>id\<close>s 1 to \<open>*numRequests\<close> in that
  order for batch 1, add one to the \<open>WaitGroup\<close> for each, and leave the main
  goroutine in \<open>wg.Wait()\<close>.
\<close>

theorem go_batch_launches_ids:
  "\<exists>s. go_main nr args (replicate (nat (flag_n (fst (main_setup args)))) MainStep @ [MainStep]) = Some s
     \<and> at s = Waiting
     \<and> inflight s = map (\<lambda>j. (1, j)) [1..flag_n (fst (main_setup args))]
     \<and> wg s = int (nat (flag_n (fst (main_setup args))))"
proof -
  obtain vars client where m: "main_setup args = (vars, client)"
    by (cases "main_setup args")
  have "at (init_state vars) = Launching 0"
    by (simp add: init_state_def)
  from run_launching [OF this, of "nat (flag_n vars)" vars nr client]
  obtain s where "run nr vars client (replicate (nat (flag_n vars)) MainStep @ [MainStep]) (init_state vars) = Some s"
    "at s = Waiting"
    "inflight s = inflight (init_state vars) @ map (\<lambda>j. (batchNumber (init_state vars), j)) [0 + 1..flag_n vars]"
    "wg s = wg (init_state vars) + int (nat (flag_n vars))"
    by auto
  with m show ?thesis
    by (simp add: go_main_def init_state_def)
qed

text \<open>
  In \<open>request.js\<close>, when \<open>AbortSignal.timeout\<close> accepts the timeout, the promise of
  \<open>singleRequest\<close> is never rejected: it fulfils with an outcome that carries the
  \<open>id\<close> of the call, and a \<open>success\<close> outcome has a status from 200 to 299.
\<close>

theorem request_js_always_fulfils:
  "delay_ok (timeout cfg) \<Longrightarrow>
   \<exists>out. settles (singleRequest i u cfg env) = Inr out \<and> req_id out = i
     \<and> (case out of
           Success _ st _ \<Rightarrow> 200 \<le> st \<and> st \<le> 299
         | Failed _ _ _ \<Rightarrow> True)"
  by (auto simp: singleRequest_def mk_fetchOptions_ok try_fetch_def fetch_def text_of_def ok_def
        RequestInit_of_def Let_def
        split: sum.splits option.splits fetch_event.splits body_event.splits)

theorem request_js_always_fulfils_witness:
  "delay_ok 5000
   \<and> (\<exists>out. settles (singleRequest 3 ''http://localhost:8080''
        \<lparr>url = ''http://localhost:8080'', concurrency = 10, timeout = 5000, keepAlive = False\<rparr>
        \<lparr>uuid = ''u'', new_Request = Some (Error ''TypeError'' ''Invalid URL''),
         net = FetchFails (Error ''TypeError'' ''fetch failed''),
         startTime = 0, endTime = 2000000\<rparr>) = Inr out \<and> req_id out = 3)"
proof -
  let ?cfg = "\<lparr>url = ''http://localhost:8080'', concurrency = 10, timeout = 5000, keepAlive = False\<rparr>"
  have d: "delay_ok 5000"
    by (simp add: delay_ok_def)
  then have "delay_ok (timeout ?cfg)"
    by simp
  from request_js_always_fulfils [OF this] d show ?thesis
    by blast
qed

text \<open>
  In \<open>request.js\<close> the signal handed to \<open>fetch\<close> is the timeout signal of
  \<open>config.timeout\<close> milliseconds.
\<close>

theorem request_js_timeout_is_configured:
  "fetched (singleRequest i u cfg env) = None
   \<or> (\<exists>fo. fetched (singleRequest i u cfg env) = Some fo
          \<and> delay (init_signal (RequestInit_of fo)) = timeout cfg)"
  by (auto simp: singleRequest_def mk_fetchOptions_def AbortSignal_timeout_def RequestInit_of_def
        Let_def split: sum.splits option.splits if_splits)

text \<open>
  What the \<open>catch\<close> of \<open>request.js\<close> does map to \<open>Timeout\<close>: an exception whose
  name is \<open>AbortError\<close>.
\<close>

theorem abort_error_is_timeout:
  "delay_ok (timeout cfg) \<Longrightarrow>
   settles (singleRequest i u cfg (env\<lparr>new_Request := None, net := FetchFails (Error ''AbortError'' m)\<rparr>)) =
     Inr (Failed i ''Timeout'' (bigint_div (endTime env - startTime env) 1000000))"
  by (simp add: singleRequest_def mk_fetchOptions_ok try_fetch_def fetch_def Let_def)

theorem abort_error_is_timeout_witness:
  "delay_ok 5000
   \<and> settles (singleRequest 1 ''http://localhost:8080''
        \<lparr>url = ''http://localhost:8080'', concurrency = 10, timeout = 5000, keepAlive = False\<rparr>
        \<lparr>uuid = ''u'', new_Request = None,
         net = FetchFails (Error ''AbortError'' ''This operation was aborted''),
         startTime = 0, endTime = 2000000\<rparr>) = Inr (Failed 1 ''Timeout'' 2)"
proof -
  let ?cfg = "\<lparr>url = ''http://localhost:8080'', concurrency = 10, timeout = 5000, keepAlive = False\<rparr>"
  let ?env = "\<lparr>uuid = ''u'', new_Request = None,
         net = FetchFails (Error ''AbortError'' ''This operation was aborted''),
         startTime = 0, endTime = 2000000\<rparr>"
  have d: "delay_ok 5000"
    by (simp add: delay_ok_def)
  then have "delay_ok (timeout ?cfg)"
    by simp
  from abort_error_is_timeout [where cfg = ?cfg and i = 1 and u = "''http://localhost:8080''" and env = ?env
      and m = "''This operation was aborted''", OF this]
  have "settles (singleRequest 1 ''http://localhost:8080'' ?cfg ?env) = Inr (Failed 1 ''Timeout'' 2)"
    by (simp add: bigint_div_def)
  with d show ?thesis by blast
qed

text \<open>
  In \<open>request.js\<close> a timeout that \<open>AbortSignal.timeout\<close> refuses (below 0 or above
  4294967295) makes the call throw before the \<open>try\<close>: nothing is logged, nothing is
  handed to \<open>fetch\<close>, and the promise of \<open>singleRequest\<close> is rejected with the
  \<open>RangeError\<close>.  \<open>getArgs\<close> lets such a timeout through, as the value 5000000000
  shows.
\<close>

theorem request_js_rejects_out_of_range:
  "\<not> delay_ok (timeout cfg) \<Longrightarrow>
   singleRequest i u cfg env =
     \<lparr>logged = [], fetched = None,
      settles = Inl (Error ''RangeError'' ''The value of delay is out of range.'')\<rparr>"
  by (simp add: singleRequest_def mk_fetchOptions_def AbortSignal_timeout_def)

theorem request_js_rejects_out_of_range_witness:
  "getArgs (\<lambda>_. True)
      (Inr \<lparr>v_url = Some ''http://localhost:8080'', v_concurrency = ''10'',
            v_timeout = ''5000000000'', v_keepalive = False\<rparr>)
     = Inr \<lparr>url = ''http://localhost:8080'', concurrency = 10, timeout = 5000000000,
            keepAlive = False\<rparr>
   \<and> settles (singleRequest 1 ''http://localhost:8080''
        \<lparr>url = ''http://localhost:8080'', concurrency = 10, timeout = 5000000000, keepAlive = False\<rparr>
        \<lparr>uuid = ''u'', new_Request = None, net = Responds 200 BodyRead,
         startTime = 0, endTime = 2000000\<rparr>)
     = Inl (Error ''RangeError'' ''The value of delay is out of range.'')"
proof -
  let ?cfg = "\<lparr>url = ''http://localhost:8080'', concurrency = 10, timeout = 5000000000, keepAlive = False\<rparr>"
  let ?env = "\<lparr>uuid = ''u'', new_Request = None, net = Responds 200 BodyRead,
         startTime = 0, endTime = 2000000\<rparr>"
  have g: "getArgs (\<lambda>_. True)
      (Inr \<lparr>v_url = Some ''http://localhost:8080'', v_concurrency = ''10'',
            v_timeout = ''5000000000'', v_keepalive = False\<rparr>) = Inr ?cfg"
    by (simp add: getArgs_def parseInt_def is_space_def is_digit_def digits_value_def num_less_def
        isNaN_def num_val_def Let_def)
  have "\<not> delay_ok (timeout ?cfg)"
    by (simp add: delay_ok_def)
  from request_js_rejects_out_of_range [where cfg = ?cfg and i = 1 and u = "''http://localhost:8080''"
      and env = ?env, OF this]
  have "settles (singleRequest 1 ''http://localhost:8080'' ?cfg ?env)
      = Inl (Error ''RangeError'' ''The value of delay is out of range.'')"
    by simp
  with g show ?thesis by blast
qed

end
